theory Spec2Isabelle
  imports Complex_Main "HOL-Library.Product_Lexorder"
begin

section \<open>Text\<close>

text \<open>
  A string is a list of 8-bit characters. Text outside ASCII is carried as its UTF-8 bytes
  (the letter i with an acute accent is \<open>0xC3 0xAD\<close>), and the character classes the two source files use
  (letter case, white space, decimal digits) are the ASCII ones: no byte from \<open>0x80\<close> up
  is a letter, a blank or a digit.
\<close>

definition ascii_lower :: "char \<Rightarrow> char" where
  "ascii_lower c =
     (case map_of (zip ''ABCDEFGHIJKLMNOPQRSTUVWXYZ'' ''abcdefghijklmnopqrstuvwxyz'') c of
        Some l \<Rightarrow> l
      | None \<Rightarrow> c)"

definition casefold :: "string \<Rightarrow> string" where
  "casefold s = map ascii_lower s"

text \<open>
  \<open>starts_with_i pat s\<close>: the literal \<open>pat\<close> matches at the start of \<open>s\<close>, letter case ignored.
  \<open>find_i pat s\<close>: a regular expression \<open>(?i)pat\<close> whose body is a literal finds a match
  somewhere in \<open>s\<close> (Java's \<open>Matcher.find\<close>, which Spark's \<open>rlike\<close> calls).
\<close>

definition starts_with_i :: "string \<Rightarrow> string \<Rightarrow> bool" where
  "starts_with_i pat s \<longleftrightarrow>
     length pat \<le> length s \<and> casefold (take (length pat) s) = casefold pat"

fun find_i :: "string \<Rightarrow> string \<Rightarrow> bool" where
  "find_i pat [] = starts_with_i pat []"
| "find_i pat (c # cs) = (starts_with_i pat (c # cs) \<or> find_i pat cs)"


section \<open>Registry enrichment: \<open>extraer_responsabilidades_rut\<close>\<close>

subsection \<open>Data\<close>

datatype error = TypeError | AttributeError | AnalysisException | ParseException

text \<open>
  A data frame is its column names and its rows, in the order in which the rows are
  iterated. A row of the input pairs column names with nullable integers; a name
  the row does not have reads as null (the function only reads columns of the frame).
\<close>

type_synonym row = "(string \<times> int option) list"

record dataframe =
  columns :: "string list"
  rows :: "row list"

definition row_value :: "row \<Rightarrow> string \<Rightarrow> int option" where
  "row_value r c = (case map_of r c of None \<Rightarrow> None | Some v \<Rightarrow> v)"

text \<open>
  The first argument is any Python object. The function looks at two things: whether the
  object has an attribute \<open>select\<close>, and whether it is a \<open>pandas.DataFrame\<close>. A pandas frame
  answers \<open>hasattr\<close> for each of its column labels, so it has the attribute exactly when a
  column is named \<open>select\<close>.
\<close>

datatype py_object =
    SparkDataFrame dataframe
  | PandasDataFrame dataframe
  | DuckDataFrame dataframe
  | OtherObject bool

text \<open>
  \<open>DuckDataFrame\<close> is an object of another class that offers the methods of a Spark
  data frame. \<open>OtherObject\<close> is any other object: it is not a pandas frame and has none of
  the methods of a frame; its flag says whether it has an attribute named \<open>select\<close>.
\<close>

fun hasattr_select :: "py_object \<Rightarrow> bool" where
  "hasattr_select (SparkDataFrame df) = True"
| "hasattr_select (PandasDataFrame df) = (''select'' \<in> set (columns df))"
| "hasattr_select (DuckDataFrame df) = True"
| "hasattr_select (OtherObject has_select) = has_select"

fun isinstance_pandas :: "py_object \<Rightarrow> bool" where
  "isinstance_pandas (PandasDataFrame df) = True"
| "isinstance_pandas _ = False"

text \<open>One row of \<open>int_personas\<close>, with the nine columns the query selects.\<close>

record int_personas_row =
  NUM_NIT :: "int option"
  FEC_CAMBIO :: "int option"
  IND_TIENE_RESP_47 :: "bool option"
  IND_TIENE_RESP_48 :: "bool option"
  IND_TIENE_RESP_33 :: "bool option"
  IND_TIENE_RESP_16 :: "bool option"
  IND_TIENE_RESP_52 :: "bool option"
  NOM_TIPO_CONTRIBUYENTE :: "string option"
  NUM_ESTABLECIMIENTOS :: "int option"

record marked_row = int_personas_row +
  marca_resp_52 :: string

subsection \<open>Lines 20 to 28: the input check\<close>

text \<open>
  \<open>printSchema\<close> on an object that kept its class: a Spark frame (or a look-alike) prints;
  a pandas frame has no such method, unless a column has that name, and then the column
  is not callable. \<open>spark.createDataFrame\<close> turns a pandas frame into the Spark frame of the
  same columns and rows (the types it infers for the columns are not part of the model).
\<close>

fun printSchema :: "py_object \<Rightarrow> error + dataframe" where
  "printSchema (SparkDataFrame df) = Inr df"
| "printSchema (DuckDataFrame df) = Inr df"
| "printSchema (PandasDataFrame df) =
     (if ''printSchema'' \<in> set (columns df) then Inl TypeError else Inl AttributeError)"
| "printSchema (OtherObject has_select) = Inl AttributeError"

fun createDataFrame :: "py_object \<Rightarrow> py_object" where
  "createDataFrame (PandasDataFrame df) = SparkDataFrame df"
| "createDataFrame x = x"

definition check_input :: "py_object \<Rightarrow> error + dataframe" where
  "check_input input_spark_df =
     (if \<not> hasattr_select input_spark_df then
        (if isinstance_pandas input_spark_df
         then printSchema (createDataFrame input_spark_df)
         else Inl TypeError)
      else printSchema input_spark_df)"

subsection \<open>Lines 30 to 42: the identifiers and the query\<close>

definition select_distinct :: "dataframe \<Rightarrow> string \<Rightarrow> error + int option list" where
  "select_distinct df c =
     (if c \<in> set (columns df) then Inr (remdups (map (\<lambda>r. row_value r c) (rows df)))
      else Inl AnalysisException)"

text \<open>
  The query text is \<open>... WHERE NUM_NIT IN (\<close>the identifiers, printed and joined by
  commas\<open>)\<close>. An empty list gives \<open>IN ()\<close>, which does not parse; a null identifier is printed
  as \<open>None\<close>, which names no column. Otherwise the store answers with the distinct rows of
  the table whose \<open>NUM_NIT\<close> is one of the identifiers. The table is the second argument
  of the model, in place of the \<open>spark\<close> session.
\<close>

definition spark_sql :: "int_personas_row list \<Rightarrow> int option list \<Rightarrow> error + int_personas_row list" where
  "spark_sql int_personas nits_list =
     (if nits_list = [] then Inl ParseException
      else if None \<in> set nits_list then Inl AnalysisException
      else Inr (remdups (filter (\<lambda>r. NUM_NIT r \<in> set nits_list) int_personas)))"

subsection \<open>Lines 46 to 87: one row for each NIT\<close>

text \<open>The equality of a join condition: null equals nothing.\<close>

definition sql_eq :: "int option \<Rightarrow> int option \<Rightarrow> bool" where
  "sql_eq a b \<longleftrightarrow> a \<noteq> None \<and> a = b"

text \<open>\<open>groupBy('NUM_NIT').count().filter(count > 1).select('NUM_NIT')\<close>; null is a group.\<close>

definition duplicated_nits_df :: "int_personas_row list \<Rightarrow> int option list" where
  "duplicated_nits_df df =
     filter (\<lambda>k. 1 < length (filter (\<lambda>r. NUM_NIT r = k) df)) (remdups (map NUM_NIT df))"

definition df_non_dupes :: "int_personas_row list \<Rightarrow> int_personas_row list" where
  "df_non_dupes df =
     filter (\<lambda>r. \<not> (\<exists>k \<in> set (duplicated_nits_df df). sql_eq (NUM_NIT r) k)) df"

definition df_dupes :: "int_personas_row list \<Rightarrow> int_personas_row list" where
  "df_dupes df = [r. r \<leftarrow> df, k \<leftarrow> duplicated_nits_df df, sql_eq (NUM_NIT r) k]"

text \<open>
  \<open>row_number().over(Window.partitionBy(part).orderBy(...))\<close>: the rows of each partition,
  put in the window's order and numbered from 1. \<open>ordered\<close> sorts one partition. Where
  the order leaves a tie Spark may number either row first; the model keeps the rows
  of a tie in the order they have in the frame.
\<close>

definition row_number_over ::
  "('r \<Rightarrow> 'k) \<Rightarrow> ('r list \<Rightarrow> 'r list) \<Rightarrow> 'r list \<Rightarrow> ('r \<times> nat) list" where
  "row_number_over part ordered df =
     concat (map (\<lambda>k. let p = ordered (filter (\<lambda>r. part r = k) df)
                      in zip p [1 ..< Suc (length p)])
                 (remdups (map part df)))"

text \<open>\<open>F.col("FEC_CAMBIO").desc()\<close>: latest first, nulls last.\<close>

definition desc_nulls_last :: "int option \<Rightarrow> bool \<times> int" where
  "desc_nulls_last d = (case d of None \<Rightarrow> (True, 0) | Some t \<Rightarrow> (False, - t))"

definition df_dupes_ranked :: "int_personas_row list \<Rightarrow> (int_personas_row \<times> nat) list" where
  "df_dupes_ranked df =
     row_number_over NUM_NIT (sort_key (\<lambda>r. desc_nulls_last (FEC_CAMBIO r))) (df_dupes df)"

definition df_dupes_cleaned :: "int_personas_row list \<Rightarrow> int_personas_row list" where
  "df_dupes_cleaned df = map fst (filter (\<lambda>(r, rank). rank = 1) (df_dupes_ranked df))"

text \<open>Line 81, \<open>unionByName\<close>.\<close>

definition df_union :: "int_personas_row list \<Rightarrow> int_personas_row list" where
  "df_union df = df_non_dupes df @ df_dupes_cleaned df"

text \<open>
  Lines 84 to 87: the first row of each NIT, by \<open>monotonically_increasing_id()\<close>, which
  grows along the frame.
\<close>

definition df_infor_rut_int_personas_clean :: "int_personas_row list \<Rightarrow> int_personas_row list" where
  "df_infor_rut_int_personas_clean df =
     map fst (filter (\<lambda>(r, rn). rn = 1) (row_number_over NUM_NIT (\<lambda>p. p) (df_union df)))"

subsection \<open>Lines 89 to 93: \<open>marca_resp_52\<close>\<close>

text \<open>\<open>SI_acento\<close> is the two letters \<open>S\<close> and \<open>I\<close> with acute accent.\<close>

definition SI_acento :: string where
  "SI_acento = [CHR ''S'', CHR 0xC3, CHR 0x8D]"

text \<open>\<open>F.col(c) == True\<close>: null when the column is null.\<close>

definition eq_True :: "bool option \<Rightarrow> bool option" where
  "eq_True v = (case v of None \<Rightarrow> None | Some b \<Rightarrow> Some (b = True))"

text \<open>\<open>F.when(cond, a).otherwise(b)\<close> takes \<open>a\<close> only where \<open>cond\<close> is true, not where it is null.\<close>

definition when_otherwise :: "bool option \<Rightarrow> 'a \<Rightarrow> 'a \<Rightarrow> 'a" where
  "when_otherwise cond a b = (if cond = Some True then a else b)"

definition with_marca_resp_52 :: "int_personas_row \<Rightarrow> marked_row" where
  "with_marca_resp_52 r =
     int_personas_row.extend r
       (marked_row.fields (when_otherwise (eq_True (IND_TIENE_RESP_52 r)) SI_acento ''No''))"

subsection \<open>Lines 95 to 105: the join and the taxpayer type\<close>

definition Persona_Natural :: string where
  "Persona_Natural = ''Persona Natural''"

definition Persona_Juridica :: string where
  "Persona_Juridica = ''Persona Jur'' @ [CHR 0xC3, CHR 0xAD] @ ''dica''"

text \<open>\<open>col.rlike("(?i)" + literal)\<close>: null on a null column.\<close>

definition rlike_i :: "string option \<Rightarrow> string \<Rightarrow> bool option" where
  "rlike_i v pat = (case v of None \<Rightarrow> None | Some s \<Rightarrow> Some (find_i pat s))"

definition normalizar_tipo :: "string option \<Rightarrow> string option" where
  "normalizar_tipo v =
     when_otherwise (rlike_i v ''persona nat'') (Some Persona_Natural)
       (when_otherwise (rlike_i v ''persona jur'') (Some Persona_Juridica) v)"

type_synonym joined_row = "row \<times> marked_row"

text \<open>
  The inner join on \<open>numero_identificacion = NUM_NIT\<close>, then \<open>withColumn\<close>. The new column's
  expression names \<open>NOM_TIPO_CONTRIBUYENTE\<close>, which the analyser cannot resolve when the
  input frame has a column of that name too. Column names are compared as they are
  written.
\<close>

definition df_joined_final :: "dataframe \<Rightarrow> marked_row list \<Rightarrow> error + joined_row list" where
  "df_joined_final input clean =
     (if ''NOM_TIPO_CONTRIBUYENTE'' \<in> set (columns input) then Inl AnalysisException
      else Inr (map (\<lambda>(l, r). (l, r\<lparr>NOM_TIPO_CONTRIBUYENTE := normalizar_tipo (NOM_TIPO_CONTRIBUYENTE r)\<rparr>))
                 [(l, r). l \<leftarrow> rows input, r \<leftarrow> clean,
                    sql_eq (row_value l ''numero_identificacion'') (NUM_NIT r)]))"

subsection \<open>The function\<close>

text \<open>
  \<open>nombre_campo_rut\<close> is the second parameter of the source; its body never reads it.
  \<open>int_personas\<close> stands for the table behind \<open>spark\<close>; \<open>dbutils\<close> is not used.
\<close>

definition extraer_responsabilidades_rut ::
  "py_object \<Rightarrow> string \<Rightarrow> int_personas_row list \<Rightarrow> error + joined_row list" where
  "extraer_responsabilidades_rut input_spark_df nombre_campo_rut int_personas =
     (case check_input input_spark_df of
        Inl e \<Rightarrow> Inl e
      | Inr input \<Rightarrow>
          (case select_distinct input ''numero_identificacion'' of
             Inl e \<Rightarrow> Inl e
           | Inr nits_list \<Rightarrow>
               (case spark_sql int_personas nits_list of
                  Inl e \<Rightarrow> Inl e
                | Inr df_infor_rut_int_personas \<Rightarrow>
                    df_joined_final input
                      (map with_marca_resp_52
                         (df_infor_rut_int_personas_clean df_infor_rut_int_personas)))))"


section \<open>Fiscal variable resolver: \<open>lookup_name_by_year\<close>\<close>

subsection \<open>Python text\<close>

text \<open>\<open>str.strip()\<close> removes white space at both ends; \<open>rstrip("_")\<close> removes underscores at the end.\<close>

definition is_space :: "char \<Rightarrow> bool" where
  "is_space c \<longleftrightarrow>
     c \<in> set [CHR 0x09, CHR 0x0A, CHR 0x0B, CHR 0x0C, CHR 0x0D,
              CHR 0x1C, CHR 0x1D, CHR 0x1E, CHR 0x1F, CHR '' '']"

definition strip :: "string \<Rightarrow> string" where
  "strip s = rev (dropWhile is_space (rev (dropWhile is_space s)))"

definition rstrip_underscore :: "string \<Rightarrow> string" where
  "rstrip_underscore s = rev (dropWhile (\<lambda>c. c = CHR ''_'') (rev s))"

text \<open>\<open>sep.join(parts)\<close>.\<close>

fun join :: "string \<Rightarrow> string list \<Rightarrow> string" where
  "join sep [] = []"
| "join sep [p] = p"
| "join sep (p # q # ps) = p @ sep @ join sep (q # ps)"

text \<open>Decimal digits: \<open>\d\<close>, \<open>int(...)\<close> of a run of digits, and \<open>str(...)\<close> of an integer.\<close>

definition digit_value :: "char \<Rightarrow> nat option" where
  "digit_value c = map_of (zip ''0123456789'' [0, 1, 2, 3, 4, 5, 6, 7, 8, 9]) c"

definition is_digit :: "char \<Rightarrow> bool" where
  "is_digit c \<longleftrightarrow> digit_value c \<noteq> None"

definition int_of_digits :: "string \<Rightarrow> int" where
  "int_of_digits ds =
     foldl (\<lambda>a c. 10 * a + (case digit_value c of None \<Rightarrow> 0 | Some v \<Rightarrow> int v)) 0 ds"

fun str_nat :: "nat \<Rightarrow> string" where
  "str_nat n =
     (if n < 10 then [''0123456789'' ! n]
      else str_nat (n div 10) @ [''0123456789'' ! (n mod 10)])"

declare str_nat.simps [simp del]

definition str_int :: "int \<Rightarrow> string" where
  "str_int i = (if i < 0 then CHR ''-'' # str_nat (nat (- i)) else str_nat (nat i))"

subsection \<open>Lines 104 to 111: the variable code\<close>

text \<open>
  The pattern is \<open>^(.*)VAR_(\d+)$\<close> with \<open>re.IGNORECASE\<close>. \<open>match_VAR_digits rest\<close> is the
  part after the first group, tried at the start of \<open>rest\<close>: four characters that are
  \<open>VAR_\<close> up to letter case, then one or more digits, as many as there are, then the end
  of the text (or a single line feed before it). It returns the digits.
\<close>

definition match_VAR_digits :: "string \<Rightarrow> string option" where
  "match_VAR_digits rest =
     (let digits = takeWhile is_digit (drop 4 rest);
          tail = dropWhile is_digit (drop 4 rest)
      in if casefold (take 4 rest) = ''var_'' \<and> digits \<noteq> [] \<and> (tail = [] \<or> tail = [CHR 0x0A])
         then Some digits else None)"

text \<open>
  The first group is greedy: the longest prefix is tried first, then shorter ones.
  The dot matches every character but the line feed. \<open>search_group n s\<close> tries the
  prefixes of length \<open>n\<close> down to 0.
\<close>

fun search_group :: "nat \<Rightarrow> string \<Rightarrow> (string \<times> string) option" where
  "search_group 0 s =
     (case match_VAR_digits s of None \<Rightarrow> None | Some digits \<Rightarrow> Some ([], digits))"
| "search_group (Suc n) s =
     (if CHR 0x0A \<in> set (take (Suc n) s) then search_group n s
      else (case match_VAR_digits (drop (Suc n) s) of
              None \<Rightarrow> search_group n s
            | Some digits \<Rightarrow> Some (take (Suc n) s, digits)))"

definition re_search :: "string \<Rightarrow> (string \<times> string) option" where
  "re_search s = search_group (length s) s"

text \<open>Lines 106 to 111: \<open>None\<close> when the pattern is not found, else the prefix and the number.\<close>

definition parse_var_code :: "string \<Rightarrow> (string \<times> int) option" where
  "parse_var_code var_code =
     (case re_search (strip var_code) of
        None \<Rightarrow> None
      | Some (prefix_raw, digits) \<Rightarrow> Some (rstrip_underscore prefix_raw, int_of_digits digits))"

subsection \<open>The metadata table\<close>

text \<open>
  A cell of the sheet as pandas holds it: missing, an integer, a float (given by its
  value; the float that is not a number is the missing cell, and the infinities are
  left out), or text. Integers are unbounded here; pandas holds them in 64 bits.
\<close>

datatype cell = NaN | IntC int | FloatC rat | StrC string

text \<open>
  A row of \<open>DF_METADATA\<close>: the four columns the function reads by name, and the other
  columns by their labels. \<open>Int64_row\<close> is a row after lines 116 to 125, where three of
  the columns are nullable integers.
\<close>

record metadata_row =
  Codigo_del_Formato :: cell
  Codigo_de_la_Variable :: cell
  Ano_Gravable_Desde :: cell
  Ano_Gravable_Hasta :: cell
  otras_columnas :: "(string \<times> cell) list"

record Int64_row =
  Formato :: cell
  Variable :: "int option"
  Desde :: "int option"
  Hasta :: "int option"
  otras :: "(string \<times> cell) list"

definition col_Codigo_del_Formato :: string where
  "col_Codigo_del_Formato = ''C'' @ [CHR 0xC3, CHR 0xB3] @ ''digo del Formato''"

definition col_Codigo_de_la_Variable :: string where
  "col_Codigo_de_la_Variable = ''C'' @ [CHR 0xC3, CHR 0xB3] @ ''digo de la Variable''"

definition col_Ano_Gravable_Desde :: string where
  "col_Ano_Gravable_Desde = ''A'' @ [CHR 0xC3, CHR 0xB1] @ ''o Gravable Desde''"

definition col_Ano_Gravable_Hasta :: string where
  "col_Ano_Gravable_Hasta = ''A'' @ [CHR 0xC3, CHR 0xB1] @ ''o Gravable Hasta''"

definition col_Descripcion_de_la_Casilla :: string where
  "col_Descripcion_de_la_Casilla = ''Descripci'' @ [CHR 0xC3, CHR 0xB3] @ ''n de la Casilla''"

definition col_Descripcion_de_la_Variable :: string where
  "col_Descripcion_de_la_Variable = ''Descripci'' @ [CHR 0xC3, CHR 0xB3] @ ''n de la Variable''"

definition col_Numero_Casilla :: string where
  "col_Numero_Casilla = ''N'' @ [CHR 0xC3, CHR 0xBA] @ ''mero Casilla''"

text \<open>The default of \<open>compose_fields\<close>; the default of \<open>sep\<close> is \<open>''_''\<close>.\<close>

definition default_compose_fields :: "string list" where
  "default_compose_fields =
     [col_Descripcion_de_la_Variable, col_Numero_Casilla,
      col_Ano_Gravable_Desde, col_Ano_Gravable_Hasta]"

subsection \<open>What the function takes from Python and pandas\<close>

text \<open>
  Three things are not in the source file and are arguments of the model:
  which text \<open>pandas.to_numeric\<close> reads as a number (and as which), the text that \<open>str\<close>
  gives for a float, and the year of the system clock.
\<close>

record runtime =
  to_numeric_text :: "string \<Rightarrow> rat option"
  float_text :: "rat \<Rightarrow> string"
  today_year :: int

definition py_str :: "runtime \<Rightarrow> cell \<Rightarrow> string" where
  "py_str rt c =
     (case c of NaN \<Rightarrow> ''nan'' | IntC i \<Rightarrow> str_int i | FloatC q \<Rightarrow> float_text rt q | StrC s \<Rightarrow> s)"

text \<open>\<open>pd.to_numeric(..., errors='coerce')\<close> on one cell: \<open>None\<close> is the missing value.\<close>

definition to_numeric :: "runtime \<Rightarrow> cell \<Rightarrow> rat option" where
  "to_numeric rt c =
     (case c of NaN \<Rightarrow> None | IntC i \<Rightarrow> Some (of_int i) | FloatC q \<Rightarrow> Some q
      | StrC s \<Rightarrow> to_numeric_text rt s)"

text \<open>
  \<open>.astype('Int64')\<close> on one value: a number that is not whole cannot be cast, and pandas
  raises \<open>TypeError\<close>.
\<close>

definition astype_Int64 :: "rat option \<Rightarrow> error + int option" where
  "astype_Int64 v =
     (case v of
        None \<Rightarrow> Inr None
      | Some q \<Rightarrow> if of_int \<lfloor>q\<rfloor> = q then Inr (Some \<lfloor>q\<rfloor>) else Inl TypeError)"

subsection \<open>Lines 113 to 125: the normalised copy\<close>

text \<open>Line 117: the mask of the cells that read \<open>vigente\<close>.\<close>

definition mask_vig :: "runtime \<Rightarrow> cell \<Rightarrow> bool" where
  "mask_vig rt c \<longleftrightarrow> casefold (strip (py_str rt c)) = ''vigente''"

definition normalize_row :: "runtime \<Rightarrow> int \<Rightarrow> metadata_row \<Rightarrow> error + Int64_row" where
  "normalize_row rt current_year r =
     (case astype_Int64 (to_numeric rt
              (if mask_vig rt (Ano_Gravable_Hasta r) then IntC current_year
               else Ano_Gravable_Hasta r)) of
        Inl e \<Rightarrow> Inl e
      | Inr hasta \<Rightarrow>
          (case astype_Int64 (to_numeric rt (Ano_Gravable_Desde r)) of
             Inl e \<Rightarrow> Inl e
           | Inr desde \<Rightarrow>
               (case astype_Int64 (to_numeric rt (Codigo_de_la_Variable r)) of
                  Inl e \<Rightarrow> Inl e
                | Inr variable \<Rightarrow>
                    Inr \<lparr>Formato = Codigo_del_Formato r, Variable = variable,
                         Desde = desde, Hasta = hasta, otras = otras_columnas r\<rparr>)))"

fun normalize :: "runtime \<Rightarrow> int \<Rightarrow> metadata_row list \<Rightarrow> error + Int64_row list" where
  "normalize rt current_year [] = Inr []"
| "normalize rt current_year (r # rs) =
     (case normalize_row rt current_year r of
        Inl e \<Rightarrow> Inl e
      | Inr r' \<Rightarrow>
          (case normalize rt current_year rs of
             Inl e \<Rightarrow> Inl e
           | Inr rs' \<Rightarrow> Inr (r' # rs')))"

subsection \<open>Lines 127 to 140: the mask\<close>

text \<open>
  A comparison with a nullable integer is null on a missing value, and \<open>&\<close> and \<open>|\<close> on
  nullable booleans follow Kleene's tables. \<open>d.loc[mask]\<close> keeps the rows where the mask
  is true, and drops those where it is false or null.
\<close>

definition and_na :: "bool option \<Rightarrow> bool option \<Rightarrow> bool option" where
  "and_na a b =
     (if a = Some False \<or> b = Some False then Some False
      else if a = Some True \<and> b = Some True then Some True
      else None)"

definition or_na :: "bool option \<Rightarrow> bool option \<Rightarrow> bool option" where
  "or_na a b =
     (if a = Some True \<or> b = Some True then Some True
      else if a = Some False \<and> b = Some False then Some False
      else None)"

definition eq_Int64 :: "int option \<Rightarrow> int \<Rightarrow> bool option" where
  "eq_Int64 v i = (case v of None \<Rightarrow> None | Some n \<Rightarrow> Some (n = i))"

definition le_Int64 :: "int option \<Rightarrow> int \<Rightarrow> bool option" where
  "le_Int64 v i = (case v of None \<Rightarrow> None | Some n \<Rightarrow> Some (n \<le> i))"

definition ge_Int64 :: "int option \<Rightarrow> int \<Rightarrow> bool option" where
  "ge_Int64 v i = (case v of None \<Rightarrow> None | Some n \<Rightarrow> Some (i \<le> n))"

text \<open>Line 129: the format column is compared as it is in the sheet.\<close>

definition eq_cell :: "cell \<Rightarrow> int \<Rightarrow> bool" where
  "eq_cell c i =
     (case c of NaN \<Rightarrow> False | IntC n \<Rightarrow> n = i | FloatC q \<Rightarrow> q = of_int i | StrC s \<Rightarrow> False)"

definition mask :: "int \<Rightarrow> int \<Rightarrow> int \<Rightarrow> Int64_row \<Rightarrow> bool option" where
  "mask format_id var_number anogravable r =
     and_na (and_na (and_na (and_na
       (Some (eq_cell (Formato r) format_id))
       (eq_Int64 (Variable r) var_number))
       (Some (Desde r \<noteq> None)))
       (le_Int64 (Desde r) anogravable))
       (or_na (Some (Hasta r = None)) (ge_Int64 (Hasta r) anogravable))"

definition loc :: "('r \<Rightarrow> bool option) \<Rightarrow> 'r list \<Rightarrow> 'r list" where
  "loc m d = filter (\<lambda>r. m r = Some True) d"

subsection \<open>Lines 142 to 168: the names\<close>

text \<open>
  \<open>row.get(col)\<close>: the cell of the column, or Python's \<open>None\<close> when the row has no such
  column. A row taken with \<open>iloc\<close> keeps every cell as its column has it (the table has
  text columns, so pandas does not bring the row to one numeric type).
\<close>

definition int64_cell :: "int option \<Rightarrow> cell" where
  "int64_cell v = (case v of None \<Rightarrow> NaN | Some n \<Rightarrow> IntC n)"

definition row_get :: "Int64_row \<Rightarrow> string \<Rightarrow> cell option" where
  "row_get r col =
     (if col = col_Codigo_del_Formato then Some (Formato r)
      else if col = col_Codigo_de_la_Variable then Some (int64_cell (Variable r))
      else if col = col_Ano_Gravable_Desde then Some (int64_cell (Desde r))
      else if col = col_Ano_Gravable_Hasta then Some (int64_cell (Hasta r))
      else map_of (otras r) col)"

definition notna :: "cell option \<Rightarrow> bool" where
  "notna v \<longleftrightarrow> v \<noteq> None \<and> v \<noteq> Some NaN"

text \<open>Lines 152 to 156: the loop that collects the parts.\<close>

fun collect_parts :: "runtime \<Rightarrow> Int64_row \<Rightarrow> string list \<Rightarrow> string list \<Rightarrow> string list" where
  "collect_parts rt r parts [] = parts"
| "collect_parts rt r parts (col # cols) =
     (let val = row_get r col
      in collect_parts rt r
           (case val of
              None \<Rightarrow> parts
            | Some v \<Rightarrow> if notna val then parts @ [strip (py_str rt v)] else parts)
           cols)"

record resolved =
  name_var :: "cell option"
  composed_name :: "string option"
  meta_prefix :: string
  meta_var_number :: int

text \<open>
  The function. \<open>DF_METADATA\<close>, the table that the module loads when it is imported,
  is an argument of the model, after the runtime. A caller that leaves out
  \<open>compose_fields\<close> or \<open>sep\<close> passes their defaults.
\<close>

definition lookup_name_by_year ::
  "runtime \<Rightarrow> metadata_row list \<Rightarrow> int \<Rightarrow> string \<Rightarrow> int \<Rightarrow> string list \<Rightarrow> string \<Rightarrow> int option
     \<Rightarrow> error + resolved option" where
  "lookup_name_by_year rt DF_METADATA format_id var_code anogravable compose_fields sep current_year =
     (let current_year = (case current_year of None \<Rightarrow> today_year rt | Some y \<Rightarrow> y)
      in case parse_var_code var_code of
           None \<Rightarrow> Inr None
         | Some (prefix, var_number) \<Rightarrow>
             (case normalize rt current_year DF_METADATA of
                Inl e \<Rightarrow> Inl e
              | Inr d \<Rightarrow>
                  (case loc (mask format_id var_number anogravable) d of
                     [] \<Rightarrow> Inr None
                   | row # _ \<Rightarrow>
                       (let parts = collect_parts rt row [] compose_fields
                        in Inr (Some \<lparr>name_var = row_get row col_Descripcion_de_la_Casilla,
                                      composed_name = (if parts \<noteq> [] then Some (join sep parts) else None),
                                      meta_prefix = prefix,
                                      meta_var_number = var_number\<rparr>)))))"

text \<open>
  The composed name in the words of the specification: the values of the listed
  fields that are present, in the order of the list, each turned to text and trimmed,
  joined by the separator; null when no field is present.
\<close>

definition present_values :: "Int64_row \<Rightarrow> string list \<Rightarrow> cell list" where
  "present_values r compose_fields =
     concat (map (\<lambda>col. case row_get r col of None \<Rightarrow> [] | Some v \<Rightarrow> if v = NaN then [] else [v])
                 compose_fields)"

definition composed_name_spec :: "runtime \<Rightarrow> Int64_row \<Rightarrow> string list \<Rightarrow> string \<Rightarrow> string option" where
  "composed_name_spec rt r compose_fields sep =
     (if present_values r compose_fields = [] then None
      else Some (join sep (map (\<lambda>v. strip (py_str rt v)) (present_values r compose_fields))))"


text \<open>
  The filter in the words of the specification: the format and the variable number
  match, the first year is present and not after the tax year, and the last year is
  absent or not before it.
\<close>

definition in_range_spec :: "int \<Rightarrow> int \<Rightarrow> int \<Rightarrow> Int64_row \<Rightarrow> bool" where
  "in_range_spec format_id variable_number tax_year r \<longleftrightarrow>
     eq_cell (Formato r) format_id
     \<and> Variable r = Some variable_number
     \<and> (case Desde r of None \<Rightarrow> False | Some valid_from_year \<Rightarrow> valid_from_year \<le> tax_year)
     \<and> (case Hasta r of None \<Rightarrow> True | Some valid_to_year \<Rightarrow> tax_year \<le> valid_to_year)"

text \<open>
  A cell can be cast when it is missing, not numeric, or a whole number. A table can
  be cast when the three columns of lines 116 to 125 can, a last year that reads
  \<open>vigente\<close> included.
\<close>

definition castable :: "runtime \<Rightarrow> cell \<Rightarrow> bool" where
  "castable rt c \<longleftrightarrow> (case to_numeric rt c of None \<Rightarrow> True | Some q \<Rightarrow> of_int \<lfloor>q\<rfloor> = q)"

definition castable_table :: "runtime \<Rightarrow> metadata_row list \<Rightarrow> bool" where
  "castable_table rt df \<longleftrightarrow>
     list_all (\<lambda>r. castable rt (Codigo_de_la_Variable r)
                  \<and> castable rt (Ano_Gravable_Desde r)
                  \<and> (mask_vig rt (Ano_Gravable_Hasta r) \<or> castable rt (Ano_Gravable_Hasta r))) df"


section \<open>Example data\<close>

definition ejemplo_registro :: "int \<Rightarrow> int option \<Rightarrow> int_personas_row" where
  "ejemplo_registro nit fec =
     \<lparr>NUM_NIT = Some nit, FEC_CAMBIO = fec,
      IND_TIENE_RESP_47 = Some False, IND_TIENE_RESP_48 = Some True,
      IND_TIENE_RESP_33 = Some False, IND_TIENE_RESP_16 = Some False,
      IND_TIENE_RESP_52 = None, NOM_TIPO_CONTRIBUYENTE = Some ''PERSONA NATURAL O SUCESION'',
      NUM_ESTABLECIMIENTOS = Some 1\<rparr>"

definition ejemplo_salida :: "int \<Rightarrow> int option \<Rightarrow> marked_row" where
  "ejemplo_salida nit fec =
     \<lparr>NUM_NIT = Some nit, FEC_CAMBIO = fec,
      IND_TIENE_RESP_47 = Some False, IND_TIENE_RESP_48 = Some True,
      IND_TIENE_RESP_33 = Some False, IND_TIENE_RESP_16 = Some False,
      IND_TIENE_RESP_52 = None, NOM_TIPO_CONTRIBUYENTE = Some ''Persona Natural'',
      NUM_ESTABLECIMIENTOS = Some 1, marca_resp_52 = ''No''\<rparr>"

definition ejemplo_int_personas :: "int_personas_row list" where
  "ejemplo_int_personas =
     [ejemplo_registro 5 (Some 10), ejemplo_registro 5 (Some 20), ejemplo_registro 7 None]"


definition ejemplo_sin_repetir :: dataframe where
  "ejemplo_sin_repetir =
     \<lparr>columns = [''numero_identificacion''],
      rows = [[(''numero_identificacion'', Some 5)],
              [(''numero_identificacion'', Some 7)],
              [(''numero_identificacion'', Some 9)]]\<rparr>"

definition ejemplo_rut :: dataframe where
  "ejemplo_rut =
     \<lparr>columns = [''rut'', ''numero_identificacion''],
      rows = [[(''rut'', Some 5), (''numero_identificacion'', Some 7)]]\<rparr>"



text \<open>
  An example runtime: it reads a run of decimal digits as a number and no other text,
  and prints a float of a whole value with one decimal.
\<close>

definition ejemplo_runtime :: runtime where
  "ejemplo_runtime =
     \<lparr>to_numeric_text =
        (\<lambda>s. if s \<noteq> [] \<and> list_all is_digit s then Some (of_int (int_of_digits s)) else None),
      float_text = (\<lambda>q. str_int \<lfloor>q\<rfloor> @ ''.0''),
      today_year = 2025\<rparr>"

definition ejemplo_fila :: "cell \<Rightarrow> cell \<Rightarrow> metadata_row" where
  "ejemplo_fila desde hasta =
     \<lparr>Codigo_del_Formato = IntC 210, Codigo_de_la_Variable = IntC 33,
      Ano_Gravable_Desde = desde, Ano_Gravable_Hasta = hasta,
      otras_columnas =
        [(col_Descripcion_de_la_Casilla, StrC ''Renta liquida gravable''),
         (col_Descripcion_de_la_Variable, NaN),
         (col_Numero_Casilla, StrC '' 79 '')]\<rparr>"



section \<open>Properties of the registry enrichment\<close>

subsection \<open>Window functions\<close>

lemma filter_zip_none:
  assumes "\<And>n. n \<in> set ns \<Longrightarrow> \<not> P n"
  shows "filter (\<lambda>(r, n). P n) (zip xs ns) = []"
  using assms by (auto simp: filter_empty_conv dest: set_zip_rightD)

lemma rank1_zip:
  "map fst (filter (\<lambda>(r, n). n = 1) (zip p [1 ..< Suc (length p)])) = take 1 p"
proof (cases p)
  case Nil
  then show ?thesis by simp
next
  case (Cons x xs)
  have a: "filter (\<lambda>(r, n). n = Suc 0) (zip xs [Suc (Suc 0) ..< Suc (Suc (length xs))]) = []"
    by (rule filter_zip_none) (simp del: upt_Suc)
  have b: "[Suc 0 ..< Suc (Suc (length xs))] = Suc 0 # [Suc (Suc 0) ..< Suc (Suc (length xs))]"
    by (simp add: upt_conv_Cons del: upt_Suc)
  show ?thesis using Cons a b
    by (simp del: upt_Suc)
qed

lemma first_rows:
  "map fst (filter (\<lambda>(r, n). n = 1) (row_number_over part ordered df)) =
   concat (map (\<lambda>k. take 1 (ordered (filter (\<lambda>r. part r = k) df))) (remdups (map part df)))"
  unfolding row_number_over_def Let_def
  by (simp only: map_concat filter_concat map_map comp_def rank1_zip)

lemma first_rows_keys:
  assumes "\<And>p. set (ordered p) = set p"
  shows "map part (map fst (filter (\<lambda>(r, n). n = 1) (row_number_over part ordered df))) =
         remdups (map part df)"
proof -
  have one: "map part (take (Suc 0) (ordered (filter (\<lambda>r. part r = k) df))) = [k]"
    if "k \<in> set (map part df)" for k
  proof -
    let ?p = "ordered (filter (\<lambda>r. part r = k) df)"
    have "set ?p = {r \<in> set df. part r = k}" using assms by auto
    moreover from that have "{r \<in> set df. part r = k} \<noteq> {}" by auto
    ultimately obtain x xs where p: "?p = x # xs" and "part x = k"
      by (cases ?p) auto
    then show ?thesis by simp
  qed
  have "map part (concat (map (\<lambda>k. take 1 (ordered (filter (\<lambda>r. part r = k) df))) ks)) = ks"
    if "set ks \<subseteq> set (map part df)" for ks
    using that by (induction ks) (simp_all add: one)
  then show ?thesis by (simp only: first_rows) simp
qed

lemma first_rows_subset:
  assumes "\<And>p. set (ordered p) = set p"
  shows "set (map fst (filter (\<lambda>(r, n). n = 1) (row_number_over part ordered df))) \<subseteq> set df"
proof -
  have "set (take 1 (ordered (filter (\<lambda>r. part r = k) df))) \<subseteq> set df" for k
    using set_take_subset [of 1 "ordered (filter (\<lambda>r. part r = k) df)"] assms by auto
  then show ?thesis by (simp only: first_rows) auto
qed

lemma clean_keys:
  "map NUM_NIT (df_infor_rut_int_personas_clean df) = remdups (map NUM_NIT (df_union df))"
  unfolding df_infor_rut_int_personas_clean_def by (simp only: first_rows_keys)

lemma clean_distinct: "distinct (map NUM_NIT (df_infor_rut_int_personas_clean df))"
  by (simp only: clean_keys distinct_remdups)

lemma clean_subset_union: "set (df_infor_rut_int_personas_clean df) \<subseteq> set (df_union df)"
  unfolding df_infor_rut_int_personas_clean_def by (rule first_rows_subset) simp

lemma in_duplicated_nits:
  "k \<in> set (duplicated_nits_df df) \<longleftrightarrow> 1 < length (filter (\<lambda>r. NUM_NIT r = k) df)"
proof -
  have "k \<in> set (map NUM_NIT df)" if "1 < length (filter (\<lambda>r. NUM_NIT r = k) df)"
  proof -
    from that obtain r where "r \<in> set (filter (\<lambda>r. NUM_NIT r = k) df)"
      by (cases "filter (\<lambda>r. NUM_NIT r = k) df") auto
    then show ?thesis by auto
  qed
  then show ?thesis by (auto simp: duplicated_nits_df_def)
qed

lemma set_df_dupes:
  "set (df_dupes df) =
   {r \<in> set df. NUM_NIT r \<noteq> None \<and> 1 < length (filter (\<lambda>x. NUM_NIT x = NUM_NIT r) df)}"
  by (auto simp: df_dupes_def sql_eq_def in_duplicated_nits)

lemma set_df_non_dupes:
  "set (df_non_dupes df) =
   {r \<in> set df. NUM_NIT r = None \<or> length (filter (\<lambda>x. NUM_NIT x = NUM_NIT r) df) \<le> 1}"
  by (auto simp: df_non_dupes_def sql_eq_def in_duplicated_nits)

lemma head_sorted_least:
  assumes "r \<in> set (take 1 (sort_key f xs))" and "x \<in> set xs"
  shows "f r \<le> f x"
proof -
  from assms(1) obtain ys where s: "sort_key f xs = r # ys"
    by (cases "sort_key f xs") auto
  have "sorted (map f (sort_key f xs))" by (rule sorted_sort_key)
  with s have "\<forall>y \<in> set ys. f r \<le> f y" by simp
  moreover have "x \<in> set (sort_key f xs)" using assms(2) by simp
  ultimately show ?thesis using s by auto
qed

lemma desc_nulls_last_le:
  "desc_nulls_last a \<le> desc_nulls_last b \<Longrightarrow> b = Some t \<Longrightarrow> \<exists>u. a = Some u \<and> t \<le> u"
  by (auto simp: desc_nulls_last_def split: option.splits)

lemma only_row:
  assumes "length (filter P xs) \<le> 1" "x \<in> set xs" "P x" "y \<in> set xs" "P y"
  shows "x = y"
proof -
  from assms have "x \<in> set (filter P xs)" "y \<in> set (filter P xs)" by auto
  with assms(1) show ?thesis
    by (cases "filter P xs") (auto split: if_splits)
qed

lemma dupes_cleaned_latest:
  assumes "r \<in> set (df_dupes_cleaned df)" "x \<in> set df" "NUM_NIT x = NUM_NIT r"
  shows "r \<in> set (df_dupes df) \<and> desc_nulls_last (FEC_CAMBIO r) \<le> desc_nulls_last (FEC_CAMBIO x)"
proof -
  let ?key = "\<lambda>r. desc_nulls_last (FEC_CAMBIO r)"
  from assms(1) obtain k where
    r: "r \<in> set (take 1 (sort_key ?key (filter (\<lambda>r. NUM_NIT r = k) (df_dupes df))))"
    unfolding df_dupes_cleaned_def df_dupes_ranked_def by (simp only: first_rows) auto
  then have "r \<in> set (sort_key ?key (filter (\<lambda>r. NUM_NIT r = k) (df_dupes df)))"
    by (rule in_set_takeD)
  then have rk: "NUM_NIT r = k" and rd: "r \<in> set (df_dupes df)" by auto
  with assms(2,3) have "x \<in> set (df_dupes df)" by (auto simp: set_df_dupes)
  with assms(3) rk have "x \<in> set (filter (\<lambda>r. NUM_NIT r = k) (df_dupes df))" by simp
  from head_sorted_least [OF r this] rd show ?thesis by simp
qed

lemma union_latest:
  assumes "r \<in> set (df_union df)" "NUM_NIT r = Some k" "x \<in> set df" "NUM_NIT x = Some k"
  shows "r \<in> set df \<and> desc_nulls_last (FEC_CAMBIO r) \<le> desc_nulls_last (FEC_CAMBIO x)"
proof (cases "r \<in> set (df_non_dupes df)")
  case True
  with assms have "r \<in> set df" "length (filter (\<lambda>x. NUM_NIT x = Some k) df) \<le> 1"
    by (auto simp: set_df_non_dupes)
  with assms have "r = x" by (auto intro: only_row [where P = "\<lambda>x. NUM_NIT x = Some k"])
  with \<open>r \<in> set df\<close> show ?thesis by simp
next
  case False
  with assms(1) have "r \<in> set (df_dupes_cleaned df)" by (simp add: df_union_def)
  from dupes_cleaned_latest [OF this assms(3)] assms show ?thesis
    by (auto simp: set_df_dupes)
qed

lemma union_has_key:
  assumes "x \<in> set df" "NUM_NIT x = Some k"
  shows "Some k \<in> set (map NUM_NIT (df_union df))"
proof (cases "length (filter (\<lambda>r. NUM_NIT r = Some k) df) \<le> 1")
  case True
  with assms have "x \<in> set (df_non_dupes df)" by (simp add: set_df_non_dupes)
  with assms(2) show ?thesis by (force simp: df_union_def)
next
  case False
  with assms have "x \<in> set (df_dupes df)" by (simp add: set_df_dupes)
  with assms(2) have "Some k \<in> set (remdups (map NUM_NIT (df_dupes df)))" by force
  also have "remdups (map NUM_NIT (df_dupes df)) = map NUM_NIT (df_dupes_cleaned df)"
    unfolding df_dupes_cleaned_def df_dupes_ranked_def
    by (simp only: first_rows_keys set_sort)
  finally show ?thesis by (simp add: df_union_def)
qed

lemma one_of_key:
  assumes "distinct (map f xs)" "k \<in> set (map f xs)"
  shows "\<exists>r. filter (\<lambda>x. f x = k) xs = [r]"
  using assms
proof (induction xs)
  case Nil
  then show ?case by simp
next
  case (Cons a xs)
  show ?case
  proof (cases "f a = k")
    case True
    have "f x \<noteq> k" if "x \<in> set xs" for x
    proof
      assume "f x = k"
      with that have "k \<in> f ` set xs" by blast
      with Cons.prems(1) True show False by simp
    qed
    then have "filter (\<lambda>x. f x = k) xs = []"
      by (simp add: filter_empty_conv)
    with True show ?thesis by simp
  next
    case False
    with Cons show ?thesis by auto
  qed
qed

subsection \<open>The join\<close>

lemma concat_if_singleton:
  "concat (map (\<lambda>r. if P r then [g r] else []) xs) = map g (filter P xs)"
  by (induction xs) simp_all

lemma filter_sql_eq_distinct:
  assumes "distinct (map NUM_NIT clean)"
  shows "map (\<lambda>r. l) (filter (\<lambda>r. sql_eq v (NUM_NIT r)) clean) =
         (if v \<noteq> None \<and> v \<in> set (map NUM_NIT clean) then [l] else [])"
proof (cases "v \<noteq> None \<and> v \<in> set (map NUM_NIT clean)")
  case True
  with one_of_key [OF assms, of v] obtain r where "filter (\<lambda>x. NUM_NIT x = v) clean = [r]"
    by auto
  moreover have "filter (\<lambda>r. sql_eq v (NUM_NIT r)) clean = filter (\<lambda>x. NUM_NIT x = v) clean"
    using True by (intro filter_cong) (auto simp: sql_eq_def)
  ultimately show ?thesis using True by simp
next
  case False
  then have "filter (\<lambda>r. sql_eq v (NUM_NIT r)) clean = []"
    by (auto simp: filter_empty_conv sql_eq_def)
  with False show ?thesis by simp
qed

lemma joined_records:
  assumes "distinct (map NUM_NIT clean)" and "df_joined_final input clean = Inr out"
  shows "map fst out =
         filter (\<lambda>l. row_value l ''numero_identificacion'' \<noteq> None
                    \<and> row_value l ''numero_identificacion'' \<in> set (map NUM_NIT clean))
           (rows input)"
proof -
  have "map fst out =
        concat (map (\<lambda>l. map (\<lambda>r. l)
                   (filter (\<lambda>r. sql_eq (row_value l ''numero_identificacion'') (NUM_NIT r)) clean))
                 (rows input))"
    using assms(2)
    by (auto simp: df_joined_final_def map_concat comp_def concat_if_singleton case_prod_beta
             split: if_splits)
  also have "\<dots> = concat (map (\<lambda>l. if row_value l ''numero_identificacion'' \<noteq> None
                    \<and> row_value l ''numero_identificacion'' \<in> set (map NUM_NIT clean) then [l] else [])
                 (rows input))"
    by (simp only: filter_sql_eq_distinct [OF assms(1)])
  also have "\<dots> = filter (\<lambda>l. row_value l ''numero_identificacion'' \<noteq> None
                    \<and> row_value l ''numero_identificacion'' \<in> set (map NUM_NIT clean)) (rows input)"
    using concat_if_singleton [where g = "\<lambda>l. l"] by simp
  finally show ?thesis .
qed

lemma joined_keys:
  assumes "df_joined_final input clean = Inr out" and "(l, r) \<in> set out"
  shows "NUM_NIT r = row_value l ''numero_identificacion''"
  using assms
  by (auto simp: df_joined_final_def sql_eq_def split: if_splits)

lemma NUM_NIT_with_marca [simp]: "NUM_NIT (with_marca_resp_52 r) = NUM_NIT r"
  by (simp add: with_marca_resp_52_def int_personas_row.defs)

lemma dupes_cleaned_subset: "set (df_dupes_cleaned df) \<subseteq> set (df_dupes df)"
  unfolding df_dupes_cleaned_def df_dupes_ranked_def by (rule first_rows_subset) simp

lemma union_subset: "set (df_union df) \<subseteq> set df"
  using dupes_cleaned_subset [of df]
  by (auto simp: df_union_def set_df_non_dupes set_df_dupes)

lemma clean_key_set:
  assumes "None \<notin> set (map NUM_NIT df)"
  shows "set (map NUM_NIT (df_infor_rut_int_personas_clean df)) = set (map NUM_NIT df)"
proof
  show "set (map NUM_NIT (df_infor_rut_int_personas_clean df)) \<subseteq> set (map NUM_NIT df)"
    using clean_subset_union [of df] union_subset [of df] by auto
next
  show "set (map NUM_NIT df) \<subseteq> set (map NUM_NIT (df_infor_rut_int_personas_clean df))"
  proof
    fix v assume "v \<in> set (map NUM_NIT df)"
    then obtain x where x: "x \<in> set df" "NUM_NIT x = v" by auto
    with assms obtain k where "v = Some k" by (cases v) force+
    with x union_has_key [of x df k] show "v \<in> set (map NUM_NIT (df_infor_rut_int_personas_clean df))"
      by (simp only: clean_keys set_remdups)
  qed
qed

lemma spark_sql_keys:
  assumes "spark_sql int_personas nits_list = Inr df"
  shows "set (map NUM_NIT df) = set (map NUM_NIT int_personas) \<inter> set nits_list"
    and "None \<notin> set nits_list"
  using assms by (auto simp: spark_sql_def split: if_splits)

subsection \<open>One row for each NIT, one joined row for each matched record\<close>

text \<open>
  C1, as the claim states it, fails: the join is many-to-one, so an identifier that two
  input records carry comes out on two joined rows. Here both records have identifier 5
  and the registry has one row for it.
\<close>

theorem two_joined_rows_for_one_nit:
  "extraer_responsabilidades_rut
     (SparkDataFrame
        \<lparr>columns = [''numero_identificacion''],
         rows = [[(''numero_identificacion'', Some 5)], [(''numero_identificacion'', Some 5)]]\<rparr>)
     ''numero_identificacion''
     [ejemplo_registro 5 (Some 10)]
   = Inr [([(''numero_identificacion'', Some 5)], ejemplo_salida 5 (Some 10)),
          ([(''numero_identificacion'', Some 5)], ejemplo_salida 5 (Some 10))]"
  by code_simp

text \<open>
  C1, amended. After the two deduplication passes no two registry rows have the same
  \<open>NUM_NIT\<close>, whatever rows were fetched. When the call returns, the joined rows
  are, in order and once each, the input records whose identifier is a \<open>NUM_NIT\<close> of
  the registry table, every joined row carries the registry row of its own identifier,
  and an input that repeats no identifier gives an output that repeats none.
\<close>

theorem one_row_per_nit_and_per_matched_record:
  assumes "check_input input_spark_df = Inr input"
    and "extraer_responsabilidades_rut input_spark_df nombre_campo_rut int_personas = Inr out"
  shows "distinct (map NUM_NIT (df_infor_rut_int_personas_clean df))
         \<and> map fst out =
             filter (\<lambda>l. row_value l ''numero_identificacion'' \<in> set (map NUM_NIT int_personas))
               (rows input)
         \<and> (\<forall>(l, r) \<in> set out. NUM_NIT r = row_value l ''numero_identificacion'')
         \<and> (distinct (map (\<lambda>l. row_value l ''numero_identificacion'') (rows input))
              \<longrightarrow> distinct (map (\<lambda>(l, r). row_value l ''numero_identificacion'') out))"
proof -
  from assms obtain nits_list df' where
    n: "select_distinct input ''numero_identificacion'' = Inr nits_list" and
    q: "spark_sql int_personas nits_list = Inr df'" and
    j: "df_joined_final input (map with_marca_resp_52 (df_infor_rut_int_personas_clean df')) = Inr out"
    by (auto simp: extraer_responsabilidades_rut_def split: sum.splits)
  let ?clean = "map with_marca_resp_52 (df_infor_rut_int_personas_clean df')"
  let ?id = "\<lambda>l. row_value l ''numero_identificacion''"
  have keys: "map NUM_NIT ?clean = map NUM_NIT (df_infor_rut_int_personas_clean df')"
    by (simp add: comp_def)
  have d: "distinct (map NUM_NIT ?clean)"
    by (simp only: keys clean_distinct)
  have nl: "set nits_list = set (map ?id (rows input))"
    using n by (auto simp: select_distinct_def split: if_splits)
  have nn: "None \<notin> set (map NUM_NIT df')"
    using spark_sql_keys [OF q] by blast
  have ks: "set (map NUM_NIT ?clean) = set (map NUM_NIT int_personas) \<inter> set nits_list"
    unfolding keys clean_key_set [OF nn] by (rule spark_sql_keys(1) [OF q])
  have "(?id l \<noteq> None \<and> ?id l \<in> set (map NUM_NIT ?clean))
        = (?id l \<in> set (map NUM_NIT int_personas))" if "l \<in> set (rows input)" for l
    using that spark_sql_keys(2) [OF q] by (simp only: ks nl) force
  then have "filter (\<lambda>l. ?id l \<noteq> None \<and> ?id l \<in> set (map NUM_NIT ?clean)) (rows input)
        = filter (\<lambda>l. ?id l \<in> set (map NUM_NIT int_personas)) (rows input)"
    by (intro filter_cong) auto
  with joined_records [OF d j]
  have recs: "map fst out = filter (\<lambda>l. ?id l \<in> set (map NUM_NIT int_personas)) (rows input)"
    by simp
  have "map (\<lambda>(l, r). ?id l) out = map ?id (map fst out)"
    by (simp add: case_prod_beta comp_def)
  then have "distinct (map (\<lambda>(l, r). ?id l) out)" if "distinct (map ?id (rows input))"
    using that by (simp only: recs distinct_map_filter)
  with recs joined_keys [OF j] clean_distinct [of df] show ?thesis by auto
qed

text \<open>
  C1, amended: the theorem at a pandas frame of three records with identifiers 5, 7
  and 9, on a registry with two rows for 5 and one for 7.
\<close>

theorem one_row_per_nit_and_per_matched_record_witness:
  "check_input (PandasDataFrame ejemplo_sin_repetir) = Inr ejemplo_sin_repetir
   \<and> extraer_responsabilidades_rut (PandasDataFrame ejemplo_sin_repetir) ''numero_identificacion''
        ejemplo_int_personas
       = Inr [([(''numero_identificacion'', Some 5)], ejemplo_salida 5 (Some 20)),
              ([(''numero_identificacion'', Some 7)], ejemplo_salida 7 None)]
   \<and> distinct (map (\<lambda>l. row_value l ''numero_identificacion'') (rows ejemplo_sin_repetir))
   \<and> distinct (map NUM_NIT (df_infor_rut_int_personas_clean ejemplo_int_personas))
   \<and> map fst [([(''numero_identificacion'', Some 5)], ejemplo_salida 5 (Some 20)),
               ([(''numero_identificacion'', Some 7)], ejemplo_salida 7 None)]
       = filter (\<lambda>l. row_value l ''numero_identificacion'' \<in> set (map NUM_NIT ejemplo_int_personas))
           (rows ejemplo_sin_repetir)
   \<and> distinct (map (\<lambda>(l, r). row_value l ''numero_identificacion'')
                 [([(''numero_identificacion'', Some 5)], ejemplo_salida 5 (Some 20)),
                  ([(''numero_identificacion'', Some 7)], ejemplo_salida 7 None)])"
proof -
  have h1: "check_input (PandasDataFrame ejemplo_sin_repetir) = Inr ejemplo_sin_repetir"
    by code_simp
  have h2: "extraer_responsabilidades_rut (PandasDataFrame ejemplo_sin_repetir)
        ''numero_identificacion'' ejemplo_int_personas
       = Inr [([(''numero_identificacion'', Some 5)], ejemplo_salida 5 (Some 20)),
              ([(''numero_identificacion'', Some 7)], ejemplo_salida 7 None)]"
    by code_simp
  have h3: "distinct (map (\<lambda>l. row_value l ''numero_identificacion'') (rows ejemplo_sin_repetir))"
    by code_simp
  from one_row_per_nit_and_per_matched_record [OF h1 h2, of ejemplo_int_personas] h1 h2 h3
  show ?thesis by blast
qed

subsection \<open>The latest row is the one kept\<close>

text \<open>
  C2. For every identifier that has a fetched row, exactly one row of that identifier
  is left after deduplication; it is one of the fetched rows, and its \<open>FEC_CAMBIO\<close> is
  at least that of every dated fetched row of the identifier. With distinct dates it
  is therefore the row of the maximum date.
\<close>

theorem retained_row_is_latest:
  assumes "x \<in> set df" and "NUM_NIT x = Some k"
  shows "\<exists>r. filter (\<lambda>r. NUM_NIT r = Some k) (df_infor_rut_int_personas_clean df) = [r]
           \<and> r \<in> set df
           \<and> (\<forall>y \<in> set df. NUM_NIT y = Some k \<longrightarrow>
                (\<forall>t. FEC_CAMBIO y = Some t \<longrightarrow> (\<exists>u. FEC_CAMBIO r = Some u \<and> t \<le> u)))"
proof -
  have "Some k \<in> set (map NUM_NIT (df_infor_rut_int_personas_clean df))"
    using union_has_key [OF assms] by (simp only: clean_keys set_remdups)
  from one_of_key [OF clean_distinct this]
  obtain r where r: "filter (\<lambda>r. NUM_NIT r = Some k) (df_infor_rut_int_personas_clean df) = [r]" ..
  then have "r \<in> set (filter (\<lambda>r. NUM_NIT r = Some k) (df_infor_rut_int_personas_clean df))"
    by simp
  then have ru: "r \<in> set (df_union df)" and rk: "NUM_NIT r = Some k"
    using clean_subset_union by auto
  have "r \<in> set df" using union_latest [OF ru rk assms] by simp
  moreover have "\<exists>u. FEC_CAMBIO r = Some u \<and> t \<le> u"
    if "y \<in> set df" "NUM_NIT y = Some k" "FEC_CAMBIO y = Some t" for y t
    using union_latest [OF ru rk that(1,2)] that(3) by (auto dest: desc_nulls_last_le)
  ultimately show ?thesis using r by blast
qed

lemma ejemplo_clean:
  "df_infor_rut_int_personas_clean ejemplo_int_personas
   = [ejemplo_registro 7 None, ejemplo_registro 5 (Some 20)]"
  by code_simp

text \<open>C2: the theorem on three fetched rows, two of them for identifier 5, dated 10 and 20.\<close>

theorem retained_row_is_latest_witness:
  "ejemplo_registro 5 (Some 10) \<in> set ejemplo_int_personas
   \<and> NUM_NIT (ejemplo_registro 5 (Some 10)) = Some 5
   \<and> FEC_CAMBIO (ejemplo_registro 5 (Some 10)) = Some 10
   \<and> filter (\<lambda>r. NUM_NIT r = Some 5) (df_infor_rut_int_personas_clean ejemplo_int_personas)
       = [ejemplo_registro 5 (Some 20)]
   \<and> (\<exists>u. FEC_CAMBIO (ejemplo_registro 5 (Some 20)) = Some u \<and> 10 \<le> u)"
proof -
  have h1: "ejemplo_registro 5 (Some 10) \<in> set ejemplo_int_personas"
    by (simp add: ejemplo_int_personas_def)
  have h2: "NUM_NIT (ejemplo_registro 5 (Some 10)) = Some 5"
    by (simp add: ejemplo_registro_def)
  have h3: "FEC_CAMBIO (ejemplo_registro 5 (Some 10)) = Some 10"
    by (simp add: ejemplo_registro_def)
  from retained_row_is_latest [OF h1 h2] obtain r where
    r: "filter (\<lambda>r. NUM_NIT r = Some 5) (df_infor_rut_int_personas_clean ejemplo_int_personas) = [r]"
    and latest: "\<forall>y \<in> set ejemplo_int_personas. NUM_NIT y = Some 5 \<longrightarrow>
                (\<forall>t. FEC_CAMBIO y = Some t \<longrightarrow> (\<exists>u. FEC_CAMBIO r = Some u \<and> t \<le> u))"
    by blast
  have e: "r = ejemplo_registro 5 (Some 20)"
    using r by (simp add: ejemplo_clean ejemplo_registro_def)
  from latest h1 h2 h3 have "\<exists>u. FEC_CAMBIO r = Some u \<and> 10 \<le> u" by blast
  with r e h1 h2 h3 show ?thesis by simp
qed

subsection \<open>The identifier column\<close>

text \<open>
  C3. The function is called with \<open>rut\<close> as the name of the identifier column, on a
  frame that has that column (value 5) and a column \<open>numero_identificacion\<close> (value 7).
  It joins the registry row of 7, not of 5; and on a frame that has only the column
  \<open>rut\<close> it fails, since it looks for \<open>numero_identificacion\<close>.
\<close>

theorem nombre_campo_rut_not_read:
  "extraer_responsabilidades_rut (SparkDataFrame ejemplo_rut) ''rut''
     [ejemplo_registro 5 (Some 10), ejemplo_registro 7 (Some 10)]
   = Inr [([(''rut'', Some 5), (''numero_identificacion'', Some 7)], ejemplo_salida 7 (Some 10))]
   \<and> extraer_responsabilidades_rut
       (SparkDataFrame \<lparr>columns = [''rut''], rows = [[(''rut'', Some 5)]]\<rparr>) ''rut''
       [ejemplo_registro 5 (Some 10), ejemplo_registro 7 (Some 10)]
     = Inl AnalysisException"
  by code_simp

subsection \<open>The input check\<close>





subsection \<open>The taxpayer type and the mark\<close>

lemma find_i_persona_nat: "find_i ''persona nat'' Persona_Natural"
  by (simp add: Persona_Natural_def starts_with_i_def casefold_def ascii_lower_def)

lemma find_i_persona_jur: "find_i ''persona jur'' Persona_Juridica"
  by (simp add: Persona_Juridica_def starts_with_i_def casefold_def ascii_lower_def)

lemma not_find_i_persona_nat_Juridica: "\<not> find_i ''persona nat'' Persona_Juridica"
  by (simp add: Persona_Juridica_def starts_with_i_def casefold_def ascii_lower_def)

text \<open>
  C9. The normalisation of the taxpayer type is idempotent: applied to its own result it
  changes nothing, for every value of the column, null included.
\<close>

theorem normalizar_tipo_idempotent:
  "normalizar_tipo (normalizar_tipo v) = normalizar_tipo v"
  by (cases v)
     (simp_all add: normalizar_tipo_def when_otherwise_def rlike_i_def
        find_i_persona_nat find_i_persona_jur not_find_i_persona_nat_Juridica)

text \<open>
  C10. The derived field \<open>marca_resp_52\<close> is \<open>SI_acento\<close> for a row whose
  \<open>IND_TIENE_RESP_52\<close> is true and \<open>No\<close> for every other row: a false flag and a
  null flag both give \<open>No\<close>.
\<close>

theorem marca_resp_52_null_is_No:
  "marca_resp_52 (with_marca_resp_52 (r\<lparr>IND_TIENE_RESP_52 := None\<rparr>)) = ''No''
   \<and> marca_resp_52 (with_marca_resp_52 (r\<lparr>IND_TIENE_RESP_52 := Some False\<rparr>)) = ''No''
   \<and> marca_resp_52 (with_marca_resp_52 (r\<lparr>IND_TIENE_RESP_52 := Some True\<rparr>)) = SI_acento
   \<and> SI_acento \<noteq> ''No''"
  by (simp add: with_marca_resp_52_def when_otherwise_def eq_True_def SI_acento_def
        int_personas_row.defs marked_row.defs)

section \<open>Properties of the fiscal variable resolver\<close>

subsection \<open>The variable code\<close>

lemma lookup_unparsed:
  assumes "parse_var_code var_code = None"
  shows "lookup_name_by_year rt df f var_code y cfs sep cy = Inr None"
  using assms by (simp add: lookup_name_by_year_def Let_def)













subsection \<open>The filter\<close>

lemma mask_iff: "(mask f n y r = Some True) = in_range_spec f n y r"
  by (auto simp: mask_def in_range_spec_def and_na_def or_na_def eq_Int64_def le_Int64_def
        ge_Int64_def split: option.splits)

lemma loc_mask: "loc (mask f n y) d = filter (in_range_spec f n y) d"
  by (simp add: loc_def mask_iff)

lemma collect_parts_acc:
  "collect_parts rt r parts cols
   = parts @ map (\<lambda>v. strip (py_str rt v)) (present_values r cols)"
  by (induction cols arbitrary: parts)
     (auto simp: present_values_def notna_def Let_def split: option.splits)

lemma collect_parts_spec:
  "collect_parts rt r [] cols = map (\<lambda>v. strip (py_str rt v)) (present_values r cols)"
  by (simp add: collect_parts_acc)

lemma lookup_matched:
  assumes "parse_var_code var_code = Some (p, n)"
    and "normalize rt (case cy of None \<Rightarrow> today_year rt | Some c \<Rightarrow> c) df = Inr d"
    and "loc (mask f n y) d = row # others"
  shows "lookup_name_by_year rt df f var_code y cfs sep cy
         = Inr (Some \<lparr>name_var = row_get row col_Descripcion_de_la_Casilla,
                      composed_name = composed_name_spec rt row cfs sep,
                      meta_prefix = p, meta_var_number = n\<rparr>)"
  using assms
  by (simp add: lookup_name_by_year_def Let_def collect_parts_spec composed_name_spec_def)

lemma lookup_unmatched:
  assumes "parse_var_code var_code = Some (p, n)"
    and "normalize rt (case cy of None \<Rightarrow> today_year rt | Some c \<Rightarrow> c) df = Inr d"
    and "loc (mask f n y) d = []"
  shows "lookup_name_by_year rt df f var_code y cfs sep cy = Inr None"
  using assms by (simp add: lookup_name_by_year_def Let_def)













subsection \<open>The composed name\<close>






subsection \<open>Errors\<close>

text \<open>
  A table can be cast when no cell of the three columns is a number with a fraction.
  On such a table the resolver returns, and it returns \<open>None\<close> when no row has the format.
\<close>

lemma astype_castable:
  "castable rt c \<Longrightarrow> \<exists>v. astype_Int64 (to_numeric rt c) = Inr v"
  by (auto simp: castable_def astype_Int64_def split: option.splits)

lemma mask_vig_IntC_castable:
  "\<exists>v. astype_Int64 (to_numeric rt (IntC i)) = Inr v"
  by (simp add: astype_Int64_def to_numeric_def)

lemma normalize_row_castable:
  assumes "castable rt (Codigo_de_la_Variable r)" "castable rt (Ano_Gravable_Desde r)"
    "mask_vig rt (Ano_Gravable_Hasta r) \<or> castable rt (Ano_Gravable_Hasta r)"
  shows "\<exists>r'. normalize_row rt cy r = Inr r'"
proof -
  obtain v where v: "astype_Int64 (to_numeric rt (Codigo_de_la_Variable r)) = Inr v"
    using astype_castable [OF assms(1)] by blast
  obtain a where a: "astype_Int64 (to_numeric rt (Ano_Gravable_Desde r)) = Inr a"
    using astype_castable [OF assms(2)] by blast
  obtain b where b: "astype_Int64 (to_numeric rt
              (if mask_vig rt (Ano_Gravable_Hasta r) then IntC cy
               else Ano_Gravable_Hasta r)) = Inr b"
    using assms(3) astype_castable [of rt "Ano_Gravable_Hasta r"] mask_vig_IntC_castable [of rt cy]
    by (cases "mask_vig rt (Ano_Gravable_Hasta r)") auto
  show ?thesis by (simp add: normalize_row_def v a b)
qed

lemma normalize_castable:
  "castable_table rt df \<Longrightarrow> \<exists>d. normalize rt cy df = Inr d \<and> length d = length df"
proof (induction df)
  case Nil
  then show ?case by simp
next
  case (Cons r rs)
  then obtain d where "normalize rt cy rs = Inr d" "length d = length rs"
    by (auto simp: castable_table_def)
  moreover from Cons.prems obtain r' where "normalize_row rt cy r = Inr r'"
    using normalize_row_castable [of rt r cy] by (auto simp: castable_table_def)
  ultimately show ?case by simp
qed

lemma normalize_Formato:
  "normalize rt cy df = Inr d \<Longrightarrow> map Formato d = map Codigo_del_Formato df"
proof (induction df arbitrary: d)
  case Nil
  then show ?case by simp
next
  case (Cons r rs)
  then show ?case
    by (auto simp: normalize_row_def split: sum.splits)
qed

lemma lookup_returns:
  assumes "castable_table rt df"
  shows "\<exists>res. lookup_name_by_year rt df f var_code y cfs sep cy = Inr res"
proof (cases "parse_var_code var_code")
  case None
  then show ?thesis by (simp add: lookup_unparsed)
next
  case (Some pn)
  obtain p n where pn: "pn = (p, n)" by (cases pn)
  obtain d where d: "normalize rt (case cy of None \<Rightarrow> today_year rt | Some c \<Rightarrow> c) df = Inr d"
    using normalize_castable [OF assms] by blast
  show ?thesis
  proof (cases "loc (mask f n y) d")
    case Nil
    with lookup_unmatched [of var_code p n rt cy df d f y] Some pn d show ?thesis by simp
  next
    case (Cons row others)
    with lookup_matched [of var_code p n rt cy df d f y row others] Some pn d show ?thesis by simp
  qed
qed

lemma lookup_no_format:
  assumes "castable_table rt df" and "\<forall>r \<in> set df. \<not> eq_cell (Codigo_del_Formato r) f"
  shows "lookup_name_by_year rt df f var_code y cfs sep cy = Inr None"
proof (cases "parse_var_code var_code")
  case None
  then show ?thesis by (simp add: lookup_unparsed)
next
  case (Some pn)
  obtain p n where pn: "pn = (p, n)" by (cases pn)
  obtain d where d: "normalize rt (case cy of None \<Rightarrow> today_year rt | Some c \<Rightarrow> c) df = Inr d"
    using normalize_castable [OF assms(1)] by blast
  have "Formato ` set d = Codigo_del_Formato ` set df"
    using normalize_Formato [OF d] by (metis set_map)
  then have "\<exists>r0 \<in> set df. Codigo_del_Formato r0 = Formato r" if "r \<in> set d" for r
    using that by (metis imageE imageI)
  with assms(2) have "\<forall>r \<in> set d. \<not> eq_cell (Formato r) f" by metis
  then have "loc (mask f n y) d = []"
    by (auto simp: loc_mask filter_empty_conv in_range_spec_def)
  with lookup_unmatched [of var_code p n rt cy df d f y] Some pn d show ?thesis by simp
qed

text \<open>
  C7. The table has one row, of format 210, whose first year is 2020.5. The call of
  the claim, format 999 with code \<open>VAR_1\<close> and tax year 2000, finds no row of its
  format, and yet does not return \<open>None\<close>: the cast to \<open>Int64\<close> raises \<open>TypeError\<close>.
\<close>

theorem lookup_raises_on_fractional_year:
  "lookup_name_by_year ejemplo_runtime [ejemplo_fila (FloatC (4041 / 2)) NaN] 999 ''VAR_1'' 2000
     default_compose_fields ''_'' (Some 2024) = Inl TypeError
   \<and> \<not> eq_cell (Codigo_del_Formato (ejemplo_fila (FloatC (4041 / 2)) NaN)) 999"
  by code_simp

end
